theory Spec2Isabelle
  imports Main
begin

section \<open>GitStory: the message thread component and the top-level page\<close>

text \<open>
  The embedding follows \<^verbatim>\<open>src/components/tambo/message-thread-full.tsx\<close> (the
  component \<^verbatim>\<open>MessageThreadFull\<close>) and the page component \<^verbatim>\<open>Home\<close>.
  The chat SDK, the browser and the JavaScript runtime are outside the repository: they
  enter the model as parameters (a runtime record, an environment record, an SDK
  outcome function), and every theorem holds for all of them.
\<close>

subsection \<open>JavaScript values and the runtime operations the code relies on\<close>

text \<open>
  Strings are \<^typ>\<open>string\<close>; the code only concatenates them and tests them for
  emptiness. A thrown exception is a value of \<open>js_error\<close>, and a computation that may
  throw returns \<open>js_error + 'a\<close> with \<open>Inl\<close> for the exception.
\<close>

datatype js_error = TypeError | SyntaxError | DOMException | SdkFailure

text \<open>
  The values \<^verbatim>\<open>JSON.parse\<close> can return, and \<^verbatim>\<open>undefined\<close> for a property
  that is not there. Numbers are kept abstract (\<open>'n\<close>): the runtime record says how one
  prints and whether it is truthy. An object is the list of its own properties, each key
  once.
\<close>

datatype 'n jsval =
    JUndefined
  | JNull
  | JBool bool
  | JNumber 'n
  | JString string
  | JArray "'n jsval list"
  | JObject "(string \<times> 'n jsval) list"

record 'n js_runtime =
  JSON_parse :: "string \<Rightarrow> js_error + 'n jsval"
  Number_toString :: "'n \<Rightarrow> string"
  Number_toBoolean :: "'n \<Rightarrow> bool"

text \<open>Sequencing of computations that may throw: the first exception ends the sequence.\<close>

definition and_then :: "js_error + 'a \<Rightarrow> ('a \<Rightarrow> js_error + 'b) \<Rightarrow> js_error + 'b" where
  "and_then r k = (case r of Inl e \<Rightarrow> Inl e | Inr x \<Rightarrow> k x)"

text \<open>\<^verbatim>\<open>a.join(",")\<close> on strings that are already computed.\<close>

fun join_comma :: "string list \<Rightarrow> string" where
  "join_comma [] = []"
| "join_comma [s] = s"
| "join_comma (s # t # ss) = s @ '','' @ join_comma (t # ss)"

text \<open>Running a list of computations that may throw, stopping at the first exception.\<close>

fun sequence_results :: "(js_error + 'a) list \<Rightarrow> js_error + 'a list" where
  "sequence_results [] = Inr []"
| "sequence_results (r # rs) =
     (case r of
        Inl e \<Rightarrow> Inl e
      | Inr x \<Rightarrow> (case sequence_results rs of Inl e \<Rightarrow> Inl e | Inr xs \<Rightarrow> Inr (x # xs)))"

text \<open>
  The conversion a template literal \<^verbatim>\<open>`${v}`\<close> applies to \<open>v\<close> (ECMAScript
  \<open>ToString\<close>). An array prints its elements joined by commas, \<^verbatim>\<open>null\<close> and
  \<^verbatim>\<open>undefined\<close> elements as the empty string. A parsed object prints as
  \<^verbatim>\<open>[object Object]\<close> through \<^verbatim>\<open>Object.prototype.toString\<close>, unless it has an
  own property \<^verbatim>\<open>toString\<close>: that one is never callable, \<^verbatim>\<open>valueOf\<close> yields no
  primitive either, and the conversion throws a TypeError.
\<close>

fun ToString :: "('n \<Rightarrow> string) \<Rightarrow> 'n jsval \<Rightarrow> js_error + string" where
  "ToString num JUndefined = Inr ''undefined''"
| "ToString num JNull = Inr ''null''"
| "ToString num (JBool b) = Inr (if b then ''true'' else ''false'')"
| "ToString num (JNumber n) = Inr (num n)"
| "ToString num (JString s) = Inr s"
| "ToString num (JArray vs) =
     (case sequence_results
        (map (\<lambda>v. if v = JUndefined \<or> v = JNull then Inr [] else ToString num v) vs) of
        Inl e \<Rightarrow> Inl e
      | Inr ss \<Rightarrow> Inr (join_comma ss))"
| "ToString num (JObject ps) =
     (if ''toString'' \<in> fst ` set ps then Inl TypeError else Inr ''[object Object]'')"

text \<open>The test \<^verbatim>\<open>v ? a : b\<close> applies to \<open>v\<close> (ECMAScript \<open>ToBoolean\<close>).\<close>

fun ToBoolean :: "('n \<Rightarrow> bool) \<Rightarrow> 'n jsval \<Rightarrow> bool" where
  "ToBoolean num JUndefined = False"
| "ToBoolean num JNull = False"
| "ToBoolean num (JBool b) = b"
| "ToBoolean num (JNumber n) = num n"
| "ToBoolean num (JString s) = (s \<noteq> [])"
| "ToBoolean num (JArray vs) = True"
| "ToBoolean num (JObject ps) = True"

text \<open>
  Reading the property \<open>k\<close> in a destructuring pattern \<^verbatim>\<open>const { k } = v\<close>, for a key
  that no built-in prototype defines (\<^verbatim>\<open>owner\<close>, \<^verbatim>\<open>repo\<close>, \<^verbatim>\<open>branch\<close>):
  \<^verbatim>\<open>null\<close> and \<^verbatim>\<open>undefined\<close> cannot be destructured, an object gives its own
  property, every other value gives \<^verbatim>\<open>undefined\<close>.
\<close>

fun destructure :: "'n jsval \<Rightarrow> string \<Rightarrow> js_error + 'n jsval" where
  "destructure JUndefined k = Inl TypeError"
| "destructure JNull k = Inl TypeError"
| "destructure (JObject ps) k =
     (case map_of ps k of None \<Rightarrow> Inr JUndefined | Some v \<Rightarrow> Inr v)"
| "destructure v k = Inr JUndefined"

subsection \<open>getRepoContext\<close>

text \<open>
  What the browser gives the component: whether \<^verbatim>\<open>window\<close> exists, and what
  \<^verbatim>\<open>localStorage.getItem(key)\<close> does for each key (it returns the stored string or
  \<^verbatim>\<open>null\<close>, or throws when storage access is denied).
\<close>

record browser_env =
  window_defined :: bool
  localStorage_getItem :: "string \<Rightarrow> js_error + string option"

definition newline :: char where
  "newline = CHR 0x0A"

text \<open>
  The body of the \<^verbatim>\<open>try\<close> block. \<open>Inr (Some s)\<close> is \<^verbatim>\<open>return s\<close>, \<open>Inr None\<close>
  is leaving the block without returning, \<open>Inl e\<close> is an exception thrown inside it.
\<close>

definition getRepoContext_try :: "'n js_runtime \<Rightarrow> browser_env \<Rightarrow> js_error + string option" where
  "getRepoContext_try rt env =
     and_then (localStorage_getItem env ''gitstory-repo'') (\<lambda>saved.
       (case saved of
          None \<Rightarrow> Inr None
        | Some saved_s \<Rightarrow>
            (if saved_s = [] then Inr None
             else
               and_then (JSON_parse rt saved_s) (\<lambda>parsed.
               and_then (destructure parsed ''owner'') (\<lambda>owner.
               and_then (destructure parsed ''repo'') (\<lambda>repo.
               and_then (destructure parsed ''branch'') (\<lambda>branch.
               and_then (ToString (Number_toString rt) owner) (\<lambda>owner_s.
               and_then (ToString (Number_toString rt) repo) (\<lambda>repo_s.
               and_then
                 (if ToBoolean (Number_toBoolean rt) branch
                  then and_then (ToString (Number_toString rt) branch)
                         (\<lambda>branch_s. Inr (''/tree/'' @ branch_s))
                  else Inr []) (\<lambda>suffix.
               (let url = ''https://github.com/'' @ owner_s @ ''/'' @ repo_s @ suffix
                in Inr (Some ([newline, newline] @ ''[Repository Context: '' @ url @ '']'')))))))))))))"

text \<open>
  The whole function: the \<^verbatim>\<open>catch\<close> ignores every exception of the block, and
  control then reaches the final \<^verbatim>\<open>return null\<close>. The result type keeps the exception
  case, so that "never throws" is a statement to prove.
\<close>

definition getRepoContext :: "'n js_runtime \<Rightarrow> browser_env \<Rightarrow> js_error + string option" where
  "getRepoContext rt env =
     (if \<not> window_defined env then Inr None
      else
        (case getRepoContext_try rt env of
           Inl e \<Rightarrow> Inr None
         | Inr (Some s) \<Rightarrow> Inr (Some s)
         | Inr None \<Rightarrow> Inr None))"

subsection \<open>Calls into the SDK and timers\<close>

text \<open>
  \<^verbatim>\<open>useTamboThread\<close> and \<^verbatim>\<open>useTamboThreadInput\<close> give the component the functions
  \<^verbatim>\<open>startNewThread\<close>, \<^verbatim>\<open>setValue\<close> and \<^verbatim>\<open>submit\<close>. What they do inside the SDK
  is not part of the repository. The model records every call a handler makes, in the
  order it makes them, together with the timers it awaits
  (\<^verbatim>\<open>await new Promise(resolve => setTimeout(resolve, ms))\<close>).
\<close>

record submit_options =
  streamResponse :: "bool option"
  resourceNames :: "(string \<times> string) list"

datatype call =
    SetValue string
  | Submit submit_options
  | StartNewThread
  | Timeout nat

text \<open>
  The SDK's side of a call: given the calls made so far and the next call, \<open>None\<close> when
  the call returns (or its promise resolves), \<open>Some e\<close> when it throws (or rejects).
\<close>

type_synonym sdk = "call list \<Rightarrow> call \<Rightarrow> js_error option"

text \<open>
  A handler is a function from the log of calls so far to its outcome and the extended
  log. An exception ends the handler at the call that threw.
\<close>

type_synonym handler = "call list \<Rightarrow> (js_error + unit) \<times> call list"

definition sdk_call :: "sdk \<Rightarrow> call \<Rightarrow> handler" where
  "sdk_call sdk c log =
     (case sdk log c of None \<Rightarrow> (Inr (), log @ [c]) | Some e \<Rightarrow> (Inl e, log @ [c]))"

definition await_timeout :: "nat \<Rightarrow> handler" where
  "await_timeout ms log = (Inr (), log @ [Timeout ms])"

definition throw :: "js_error \<Rightarrow> handler" where
  "throw e log = (Inl e, log)"

definition skip :: handler where
  "skip log = (Inr (), log)"

definition then_do :: "handler \<Rightarrow> handler \<Rightarrow> handler" where
  "then_do m k log = (case m log of (Inl e, log') \<Rightarrow> (Inl e, log') | (Inr u, log') \<Rightarrow> k log')"

text \<open>
  \<^verbatim>\<open>try { m } finally { f }\<close>: \<open>f\<close> runs whatever \<open>m\<close> did; the outcome is that of
  \<open>m\<close> unless \<open>f\<close> throws.
\<close>

definition try_finally :: "handler \<Rightarrow> handler \<Rightarrow> handler" where
  "try_finally m f log =
     (case m log of (r, log') \<Rightarrow>
        (case f log' of (Inl e, log'') \<Rightarrow> (Inl e, log'') | (Inr u, log'') \<Rightarrow> (r, log'')))"

text \<open>The calls one invocation of a handler adds to the log.\<close>

definition calls_of :: "handler \<Rightarrow> call list \<Rightarrow> call list" where
  "calls_of m log = drop (length log) (snd (m log))"

subsection \<open>The event handlers and the submit wrapper\<close>

record 'd custom_event =
  detail :: 'd

record import_code_detail =
  repoUrl :: string

definition handleStartNewThread :: "sdk \<Rightarrow> handler" where
  "handleStartNewThread sdk = sdk_call sdk StartNewThread"

text \<open>
  The handler is typed for events whose \<^verbatim>\<open>detail\<close> is \<^verbatim>\<open>{ repoUrl: string }\<close>. It is
  an \<^verbatim>\<open>async\<close> function: an exception in it rejects the promise it returned.
\<close>

definition handleImportCodeMessage :: "sdk \<Rightarrow> import_code_detail custom_event \<Rightarrow> handler" where
  "handleImportCodeMessage sdk event =
     (let repo_url = repoUrl (detail event);
          hiddenMessage =
            ''<!-- HIDDEN:import-code-initialization -->I want to explore this GitHub repository: ''
              @ repo_url
      in then_do (await_timeout 200)
        (then_do (sdk_call sdk (SetValue hiddenMessage))
        (then_do (await_timeout 50)
          (sdk_call sdk (Submit \<lparr>streamResponse = Some True, resourceNames = []\<rparr>)))))"

text \<open>
  \<open>val\<close> is the input value of the render in which the callback was created
  (\<^verbatim>\<open>value\<close> of \<^verbatim>\<open>useTamboThreadInput\<close>). The condition \<^verbatim>\<open>repoContext && value\<close>
  holds when \<open>repoContext\<close> is a non-empty string and \<open>val\<close> is non-empty; both
  other cases take the \<^verbatim>\<open>else\<close> branch.
\<close>

definition submitWithRepoContext ::
  "'n js_runtime \<Rightarrow> browser_env \<Rightarrow> sdk \<Rightarrow> string \<Rightarrow> submit_options \<Rightarrow> handler" where
  "submitWithRepoContext rt env sdk val options =
     (case getRepoContext rt env of
        Inl e \<Rightarrow> throw e
      | Inr None \<Rightarrow> sdk_call sdk (Submit options)
      | Inr (Some repoContext) \<Rightarrow>
          (if repoContext \<noteq> [] \<and> val \<noteq> []
           then
             (let originalValue = val
              in then_do (sdk_call sdk (SetValue (originalValue @ repoContext)))
                (then_do (await_timeout 50)
                  (try_finally (sdk_call sdk (Submit options)) skip)))
           else sdk_call sdk (Submit options)))"

subsection \<open>Window event listeners and the two effects\<close>

text \<open>
  A listener is a function object: its identity (a fresh one for each evaluation of the
  arrow function in an effect) and its code. \<open>Foreign\<close> stands for the listeners of other
  code on the page. The window keeps its listeners in registration order;
  \<^verbatim>\<open>addEventListener\<close> ignores a pair that is already registered and
  \<^verbatim>\<open>removeEventListener\<close> removes the matching pair.
\<close>

datatype listener_code = HandleStartNewThread | HandleImportCodeMessage | Foreign

datatype listener = Listener nat listener_code

record window_state =
  listeners :: "(string \<times> listener) list"
  next_function :: nat

definition addEventListener :: "string \<Rightarrow> listener \<Rightarrow> window_state \<Rightarrow> window_state" where
  "addEventListener ty l w =
     (if (ty, l) \<in> set (listeners w) then w
      else w\<lparr>listeners := listeners w @ [(ty, l)]\<rparr>)"

definition removeEventListener :: "string \<Rightarrow> listener \<Rightarrow> window_state \<Rightarrow> window_state" where
  "removeEventListener ty l w = w\<lparr>listeners := remove1 (ty, l) (listeners w)\<rparr>"

text \<open>Creating a function object takes the next unused identity.\<close>

definition new_function :: "listener_code \<Rightarrow> window_state \<Rightarrow> listener \<times> window_state" where
  "new_function code w =
     (Listener (next_function w) code, w\<lparr>next_function := Suc (next_function w)\<rparr>)"

text \<open>The listeners \<^verbatim>\<open>dispatchEvent\<close> invokes for an event of type \<open>ty\<close>, in order.\<close>

definition dispatch_targets :: "string \<Rightarrow> window_state \<Rightarrow> listener list" where
  "dispatch_targets ty w = map snd (filter (\<lambda>p. fst p = ty) (listeners w))"

text \<open>
  What an invoked listener runs. The listeners of this component run its two handlers;
  what a foreign listener does is outside the model, and it adds no call to the log.
\<close>

fun invoke :: "sdk \<Rightarrow> import_code_detail custom_event \<Rightarrow> listener_code \<Rightarrow> handler" where
  "invoke sdk event HandleStartNewThread = handleStartNewThread sdk"
| "invoke sdk event HandleImportCodeMessage = handleImportCodeMessage sdk event"
| "invoke sdk event Foreign = skip"

text \<open>
  An effect runs on the window and returns the window after it together with its
  cleanup, itself a function on the window at the time it is called.
\<close>

type_synonym effect = "window_state \<Rightarrow> window_state \<times> (window_state \<Rightarrow> window_state)"

definition effect_startNewThread :: effect where
  "effect_startNewThread w =
     (case new_function HandleStartNewThread w of (h, w1) \<Rightarrow>
        (addEventListener ''gitstory-start-new-thread'' h w1,
         \<lambda>u. removeEventListener ''gitstory-start-new-thread'' h u))"

definition effect_importCodeMessage :: effect where
  "effect_importCodeMessage w =
     (case new_function HandleImportCodeMessage w of (h, w1) \<Rightarrow>
        (addEventListener ''gitstory-import-code-message'' h w1,
         \<lambda>u. removeEventListener ''gitstory-import-code-message'' h u))"

text \<open>
  Mounting runs the effects in the order the component declares them; unmounting runs
  their cleanups in the same order.
\<close>

definition mount :: "window_state \<Rightarrow> window_state \<times> (window_state \<Rightarrow> window_state) list" where
  "mount w =
     (case effect_startNewThread w of (w1, c1) \<Rightarrow>
      case effect_importCodeMessage w1 of (w2, c2) \<Rightarrow> (w2, [c1, c2]))"

definition unmount :: "(window_state \<Rightarrow> window_state) list \<Rightarrow> window_state \<Rightarrow> window_state" where
  "unmount cleanups w = fold (\<lambda>c u. c u) cleanups w"

text \<open>
  A window as the browser keeps it: no pair is registered twice, and the function
  identities in use are below the next unused one.
\<close>

fun function_id :: "listener \<Rightarrow> nat" where
  "function_id (Listener i code) = i"

definition window_ok :: "window_state \<Rightarrow> bool" where
  "window_ok w =
     (distinct (listeners w) \<and>
      list_all (\<lambda>p. function_id (snd p) < next_function w) (listeners w))"

subsection \<open>Rendered element trees\<close>

text \<open>
  A JSX element is its component name, its props in the order written and its children.
  Values that come from other modules (component and tool registries, MCP servers, refs)
  are opaque objects of type \<open>'o\<close>.
\<close>

record suggestion =
  suggestion_id :: string
  title :: string
  detailedSuggestion :: string
  messageId :: string

datatype 'o prop_value =
    Str string
  | OptStr "string option"
  | Flag bool
  | Object 'o
  | Suggestions "suggestion list"

datatype 'o element =
    Element string "(string \<times> 'o prop_value) list" "'o element list"
  | Text string

fun element_name :: "'o element \<Rightarrow> string" where
  "element_name (Element n ps cs) = n"
| "element_name (Text t) = []"

fun element_props :: "'o element \<Rightarrow> (string \<times> 'o prop_value) list" where
  "element_props (Element n ps cs) = ps"
| "element_props (Text t) = []"

fun element_children :: "'o element \<Rightarrow> 'o element list" where
  "element_children (Element n ps cs) = cs"
| "element_children (Text t) = []"

text \<open>All elements of a tree with a given component name, the root first.\<close>

fun find_elements :: "string \<Rightarrow> 'o element \<Rightarrow> 'o element list" where
  "find_elements n (Element m ps cs) =
     (if m = n then [Element m ps cs] else []) @ concat (map (find_elements n) cs)"
| "find_elements n (Text t) = []"

text \<open>
  Props are an object: setting a key that is there replaces its value in place, a new
  key goes last. A spread \<^verbatim>\<open>{...props}\<close> after other attributes sets every key of
  \<open>props\<close> in turn, so it overrides an attribute written before it. When an element
  is written with children, they replace a \<^verbatim>\<open>children\<close> entry of its props; the
  model keeps children in the element itself.
\<close>

fun set_property :: "(string \<times> 'v) list \<Rightarrow> string \<Rightarrow> 'v \<Rightarrow> (string \<times> 'v) list" where
  "set_property [] k v = [(k, v)]"
| "set_property (p # ps) k v =
     (if fst p = k then (k, v) # ps else p # set_property ps k v)"

definition spread_props :: "(string \<times> 'v) list \<Rightarrow> (string \<times> 'v) list \<Rightarrow> (string \<times> 'v) list" where
  "spread_props written props = fold (\<lambda>p acc. set_property acc (fst p) (snd p)) props written"

definition jsx_props :: "(string \<times> 'v) list \<Rightarrow> (string \<times> 'v) list" where
  "jsx_props ps = filter (\<lambda>p. fst p \<noteq> ''children'') ps"

definition threadHistorySidebar :: "string \<Rightarrow> 'o element" where
  "threadHistorySidebar historyPosition =
     Element ''ThreadHistory'' [(''position'', Str historyPosition)]
       [Element ''ThreadHistoryHeader'' [] [],
        Element ''ThreadHistoryNewButton'' [] [],
        Element ''ThreadHistorySearch'' [] [],
        Element ''ThreadHistoryList'' [] []]"

definition defaultSuggestions :: "suggestion list" where
  "defaultSuggestions =
     [\<lparr>suggestion_id = ''suggestion-1'', title = ''Get started'',
       detailedSuggestion = ''What can you help me with?'', messageId = ''welcome-query''\<rparr>,
      \<lparr>suggestion_id = ''suggestion-2'', title = ''Learn more'',
       detailedSuggestion = ''Tell me about your capabilities.'',
       messageId = ''capabilities-query''\<rparr>,
      \<lparr>suggestion_id = ''suggestion-3'', title = ''Examples'',
       detailedSuggestion = ''Show me some example queries I can try.'',
       messageId = ''examples-query''\<rparr>]"

text \<open>
  The element \<^verbatim>\<open>MessageThreadFull\<close> returns. \<open>historyPosition\<close> and \<open>mergedRef\<close>
  come from hooks, \<open>className\<close>, \<open>variant\<close> and the remaining \<open>props\<close> from the
  parent. \<^verbatim>\<open>ThreadContainer\<close> gets \<^verbatim>\<open>ref\<close>, \<^verbatim>\<open>disableSidebarSpacing\<close> and
  \<^verbatim>\<open>className\<close>, then the spread of \<open>props\<close>, and its own children.
\<close>

definition MessageThreadFull_render ::
  "string \<Rightarrow> 'o \<Rightarrow> string option \<Rightarrow> string option \<Rightarrow> (string \<times> 'o prop_value) list \<Rightarrow> 'o element" where
  "MessageThreadFull_render historyPosition mergedRef className variant props =
     Element ''div'' [(''className'', Str ''flex h-full w-full'')]
       ((if historyPosition = ''left'' then [threadHistorySidebar historyPosition] else []) @
        [Element ''ThreadContainer''
           (jsx_props
              (spread_props
                 [(''ref'', Object mergedRef), (''disableSidebarSpacing'', Flag True),
                  (''className'', OptStr className)] props))
           [Element ''ScrollableMessageContainer'' [(''className'', Str ''p-4'')]
              [Element ''ThreadContent'' [(''variant'', OptStr variant)]
                 [Element ''ThreadContentMessages'' [] []]],
            Element ''MessageSuggestions'' []
              [Element ''MessageSuggestionsStatus'' [] []],
            Element ''div'' [(''className'', Str ''px-4 pb-4'')]
              [Element ''div'' [(''className'', Str ''mb-2'')]
                 [Element ''RepoContextBadge'' [] []],
               Element ''MessageInput'' []
                 [Element ''MessageInputTextarea''
                    [(''placeholder'', Str ''Type your message or paste images...'')] [],
                  Element ''MessageInputToolbar'' []
                    [Element ''MessageInputFileButton'' [] [],
                     Element ''MessageInputMcpPromptButton'' [] [],
                     Element ''MessageInputMcpResourceButton'' [] [],
                     Element ''MessageInputImportCodeButton'' [] [],
                     Element ''MessageInputMcpConfigButton'' [] [],
                     Element ''MessageInputSubmitButton'' [] []],
                  Element ''MessageInputError'' [] []]],
            Element ''MessageSuggestions'' [(''initialSuggestions'', Suggestions defaultSuggestions)]
              [Element ''MessageSuggestionsList'' [] []]]] @
        (if historyPosition = ''right'' then [threadHistorySidebar historyPosition] else []))"

text \<open>
  The element \<^verbatim>\<open>Home\<close> returns. \<open>process_env\<close> is \<^verbatim>\<open>process.env\<close>, where a
  variable may be unset; \<open>components\<close> and \<open>tools\<close> are the registries imported from
  \<^verbatim>\<open>@/lib/tambo\<close>; \<open>useMcpServers\<close> is what the hook of that name returns in this
  render.
\<close>

definition Home :: "(string \<Rightarrow> string option) \<Rightarrow> 'o \<Rightarrow> 'o \<Rightarrow> 'o \<Rightarrow> 'o element" where
  "Home process_env components tools useMcpServers =
     (let mcpServers = useMcpServers
      in Element ''TamboProvider''
           [(''apiKey'', OptStr (process_env ''NEXT_PUBLIC_TAMBO_API_KEY'')),
            (''components'', Object components),
            (''tools'', Object tools),
            (''tamboUrl'', OptStr (process_env ''NEXT_PUBLIC_TAMBO_URL'')),
            (''mcpServers'', Object mcpServers)]
           [Element ''div'' [(''className'', Str ''h-screen flex flex-col'')]
              [Element ''div''
                 [(''className'',
                   Str ''flex items-center justify-between px-4 py-2 border-b border-border bg-card'')]
                 [Element ''div'' [(''className'', Str ''flex items-center gap-2'')]
                    [Element ''GitBranch'' [(''className'', Str ''w-5 h-5 text-primary'')] [],
                     Element ''span'' [(''className'', Str ''font-semibold'')] [Text ''GitStory'']]],
               Element ''div'' [(''className'', Str ''flex-1 overflow-hidden'')]
                 [Element ''MessageThreadFull''
                    [(''className'', Str ''max-w-4xl mx-auto h-full'')] []]]])"

subsection \<open>Orderings of calls within one invocation\<close>







subsection \<open>A concrete runtime, browser and SDK\<close>

text \<open>
  Closed instances of the theorems below are stated on these: a stored selection with
  its parse, a browser whose storage holds a given string under \<^verbatim>\<open>gitstory-repo\<close>
  and another string under a second key, and an SDK whose calls all return.
\<close>

definition octocat_json :: string where
  "octocat_json =
     ''{'' @ [CHR 0x22] @ ''owner'' @ [CHR 0x22] @ '':'' @ [CHR 0x22] @ ''octocat'' @ [CHR 0x22] @ '','' @
     [CHR 0x22] @ ''repo'' @ [CHR 0x22] @ '':'' @ [CHR 0x22] @ ''hello'' @ [CHR 0x22] @ '','' @
     [CHR 0x22] @ ''branch'' @ [CHR 0x22] @ '':'' @ [CHR 0x22] @ ''main'' @ [CHR 0x22] @ ''}''"

definition octocat_runtime :: "nat js_runtime" where
  "octocat_runtime =
     \<lparr>JSON_parse = (\<lambda>s. if s = octocat_json
                         then Inr (JObject [(''owner'', JString ''octocat''),
                                            (''repo'', JString ''hello''),
                                            (''branch'', JString ''main'')])
                         else Inl SyntaxError),
      Number_toString = (\<lambda>n. ''0''),
      Number_toBoolean = (\<lambda>n. n \<noteq> 0)\<rparr>"

definition browser_with :: "string option \<Rightarrow> string \<Rightarrow> browser_env" where
  "browser_with saved theme =
     \<lparr>window_defined = True,
      localStorage_getItem =
        (\<lambda>k. if k = ''gitstory-repo'' then Inr saved
             else if k = ''theme'' then Inr (Some theme) else Inr None)\<rparr>"

definition reliable_sdk :: sdk where
  "reliable_sdk log c = None"

definition empty_window :: window_state where
  "empty_window = \<lparr>listeners = [], next_function = 0\<rparr>"

section \<open>Properties of getRepoContext\<close>

lemma getRepoContext_returns: "\<exists>r. getRepoContext rt env = Inr r"
  by (simp add: getRepoContext_def split: sum.split option.split)



text \<open>
  Claim C2. In a browser (\<^verbatim>\<open>window\<close> defined), when nothing is stored under
  \<^verbatim>\<open>gitstory-repo\<close>, \<open>getRepoContext\<close> returns \<^verbatim>\<open>null\<close>. When the stored string
  parses to an object whose \<^verbatim>\<open>owner\<close>, \<^verbatim>\<open>repo\<close> and \<^verbatim>\<open>branch\<close> are strings,
  it returns two newlines followed by
  \<^verbatim>\<open>[Repository Context: https://github.com/{owner}/{repo}]\<close>, with
  \<^verbatim>\<open>/tree/{branch}\<close> after the repo exactly when \<open>branch\<close> is non-empty. (A stored
  string that parses is never empty.)
\<close>

theorem getRepoContext_saved_selection:
  assumes "window_defined env"
  shows "(localStorage_getItem env ''gitstory-repo'' = Inr None \<longrightarrow>
            getRepoContext rt env = Inr None) \<and>
         (localStorage_getItem env ''gitstory-repo'' = Inr (Some saved) \<and> saved \<noteq> [] \<and>
          JSON_parse rt saved = Inr (JObject ps) \<and>
          map_of ps ''owner'' = Some (JString owner) \<and>
          map_of ps ''repo'' = Some (JString repo) \<and>
          map_of ps ''branch'' = Some (JString branch) \<longrightarrow>
            getRepoContext rt env =
              Inr (Some ([newline, newline] @ ''[Repository Context: https://github.com/'' @
                         owner @ ''/'' @ repo @
                         (if branch \<noteq> [] then ''/tree/'' @ branch else []) @ '']'')))"
  using assms
  by (simp add: getRepoContext_def getRepoContext_try_def and_then_def)

theorem getRepoContext_saved_selection_witness:
  "getRepoContext octocat_runtime (browser_with None ''dark'') = Inr None \<and>
   getRepoContext octocat_runtime (browser_with (Some octocat_json) ''dark'') =
     Inr (Some ([newline, newline] @
                ''[Repository Context: https://github.com/octocat/hello/tree/main]''))"
  using getRepoContext_saved_selection
          [where env = "browser_with None ''dark''" and rt = octocat_runtime]
        getRepoContext_saved_selection
          [where env = "browser_with (Some octocat_json) ''dark''" and rt = octocat_runtime
             and saved = octocat_json
             and ps = "[(''owner'', JString ''octocat''), (''repo'', JString ''hello''),
                        (''branch'', JString ''main'')]"
             and owner = "''octocat''" and repo = "''hello''" and branch = "''main''"]
  by (simp add: browser_with_def octocat_runtime_def octocat_json_def)

text \<open>
  Claim C8. \<open>getRepoContext\<close> never throws: whatever the runtime, the browser and the
  storage do, it returns a value (a string or \<^verbatim>\<open>null\<close>). It returns \<^verbatim>\<open>null\<close> when
  nothing is stored, when the stored string is empty, when \<^verbatim>\<open>JSON.parse\<close> throws on
  the stored string, and when reading the storage throws.
\<close>

theorem getRepoContext_total:
  "(\<exists>r. getRepoContext rt env = Inr r) \<and>
   (localStorage_getItem env ''gitstory-repo'' = Inr None \<longrightarrow>
      getRepoContext rt env = Inr None) \<and>
   (localStorage_getItem env ''gitstory-repo'' = Inr (Some []) \<longrightarrow>
      getRepoContext rt env = Inr None) \<and>
   (localStorage_getItem env ''gitstory-repo'' = Inr (Some saved) \<and>
    JSON_parse rt saved = Inl e \<longrightarrow>
      getRepoContext rt env = Inr None) \<and>
   (localStorage_getItem env ''gitstory-repo'' = Inl e' \<longrightarrow>
      getRepoContext rt env = Inr None)"
  by (simp add: getRepoContext_def getRepoContext_try_def and_then_def
           split: sum.split option.split)

theorem getRepoContext_total_witness:
  "(\<exists>r. getRepoContext octocat_runtime (browser_with (Some ''{oops'') ''dark'') = Inr r) \<and>
   getRepoContext octocat_runtime (browser_with None ''dark'') = Inr None \<and>
   getRepoContext octocat_runtime (browser_with (Some []) ''dark'') = Inr None \<and>
   getRepoContext octocat_runtime (browser_with (Some ''{oops'') ''dark'') = Inr None \<and>
   getRepoContext octocat_runtime
     \<lparr>window_defined = True, localStorage_getItem = (\<lambda>k. Inl DOMException)\<rparr> = Inr None"
  using getRepoContext_total
          [where env = "browser_with None ''dark''" and rt = octocat_runtime]
        getRepoContext_total
          [where env = "browser_with (Some []) ''dark''" and rt = octocat_runtime]
        getRepoContext_total
          [where env = "browser_with (Some ''{oops'') ''dark''" and rt = octocat_runtime
             and saved = "''{oops''" and e = SyntaxError]
        getRepoContext_total
          [where env = "\<lparr>window_defined = True, localStorage_getItem = (\<lambda>k. Inl DOMException)\<rparr>"
             and rt = octocat_runtime and e' = DOMException]
  by (simp add: browser_with_def octocat_runtime_def octocat_json_def)

text \<open>
  Claim C10. \<open>getRepoContext\<close> depends only on whether \<^verbatim>\<open>window\<close> is defined and on
  what the storage gives for \<^verbatim>\<open>gitstory-repo\<close>: two browsers that agree on these
  give the same result, whatever they hold under other keys.
\<close>

theorem getRepoContext_deterministic:
  assumes "window_defined env1 = window_defined env2"
    and "localStorage_getItem env1 ''gitstory-repo'' = localStorage_getItem env2 ''gitstory-repo''"
  shows "getRepoContext rt env1 = getRepoContext rt env2"
  using assms by (simp add: getRepoContext_def getRepoContext_try_def)

theorem getRepoContext_deterministic_witness:
  "getRepoContext octocat_runtime (browser_with (Some octocat_json) ''dark'') =
   getRepoContext octocat_runtime (browser_with (Some octocat_json) ''light'')"
  using getRepoContext_deterministic
          [where ?env1.0 = "browser_with (Some octocat_json) ''dark''"
             and ?env2.0 = "browser_with (Some octocat_json) ''light''"
             and rt = octocat_runtime]
  by (simp add: browser_with_def)

section \<open>Properties of the handlers\<close>

lemma snd_sdk_call: "snd (sdk_call sdk c log) = log @ [c]"
  by (simp add: sdk_call_def split: option.split)

lemma calls_of_sdk_call: "calls_of (sdk_call sdk c) log = [c]"
  by (simp add: calls_of_def snd_sdk_call)

text \<open>
  Claim C9. When \<open>getRepoContext\<close> returns \<^verbatim>\<open>null\<close>, or the input value is empty,
  \<open>submitWithRepoContext\<close> does what the SDK's \<^verbatim>\<open>submit\<close> does with the same
  options and makes no other call: there is no \<^verbatim>\<open>setValue\<close>, so the input value
  the SDK holds is left as it was.
\<close>

theorem submitWithRepoContext_unmodified:
  assumes "getRepoContext rt env = Inr None \<or> val = []"
  shows "submitWithRepoContext rt env sdk val options log = sdk_call sdk (Submit options) log \<and>
         calls_of (submitWithRepoContext rt env sdk val options) log = [Submit options]"
proof -
  obtain r where r: "getRepoContext rt env = Inr r"
    using getRepoContext_returns by blast
  have "submitWithRepoContext rt env sdk val options = sdk_call sdk (Submit options)"
    using assms r by (cases r) (auto simp: submitWithRepoContext_def)
  then show ?thesis
    by (simp add: calls_of_sdk_call)
qed

theorem submitWithRepoContext_unmodified_witness:
  "calls_of (submitWithRepoContext octocat_runtime (browser_with None ''dark'') reliable_sdk
      ''hello'' \<lparr>streamResponse = Some True, resourceNames = []\<rparr>) []
     = [Submit \<lparr>streamResponse = Some True, resourceNames = []\<rparr>] \<and>
   calls_of (submitWithRepoContext octocat_runtime (browser_with (Some octocat_json) ''dark'')
      reliable_sdk [] \<lparr>streamResponse = Some True, resourceNames = []\<rparr>) []
     = [Submit \<lparr>streamResponse = Some True, resourceNames = []\<rparr>]"
  using submitWithRepoContext_unmodified
          [where rt = octocat_runtime and env = "browser_with None ''dark''"
             and val = "''hello''" and sdk = reliable_sdk and log = "[]"
             and options = "\<lparr>streamResponse = Some True, resourceNames = []\<rparr>"]
        submitWithRepoContext_unmodified
          [where rt = octocat_runtime and env = "browser_with (Some octocat_json) ''dark''"
             and val = "[]" and sdk = reliable_sdk and log = "[]"
             and options = "\<lparr>streamResponse = Some True, resourceNames = []\<rparr>"]
  by (simp add: getRepoContext_def getRepoContext_try_def and_then_def browser_with_def)

lemma handleImportCodeMessage_calls:
  "calls_of (handleImportCodeMessage sdk event) log =
     (let m = ''<!-- HIDDEN:import-code-initialization -->I want to explore this GitHub repository: ''
                @ repoUrl (detail event)
      in if sdk (log @ [Timeout 200]) (SetValue m) = None
         then [Timeout 200, SetValue m, Timeout 50,
               Submit \<lparr>streamResponse = Some True, resourceNames = []\<rparr>]
         else [Timeout 200, SetValue m])"
  by (simp add: handleImportCodeMessage_def calls_of_def then_do_def await_timeout_def
                sdk_call_def Let_def split: option.split)





section \<open>Properties of the listeners\<close>

lemma fresh_function_not_registered:
  assumes "window_ok w"
  shows "(ty, Listener (next_function w) code) \<notin> set (listeners w)"
proof
  assume "(ty, Listener (next_function w) code) \<in> set (listeners w)"
  with assms have "function_id (snd (ty, Listener (next_function w) code)) < next_function w"
    unfolding window_ok_def list_all_iff by blast
  then show False by simp
qed

lemma effect_startNewThread_listeners:
  assumes "window_ok w"
  shows "listeners (fst (effect_startNewThread w)) =
           listeners w @ [(''gitstory-start-new-thread'', Listener (next_function w) HandleStartNewThread)]"
  using fresh_function_not_registered [OF assms]
  by (simp add: effect_startNewThread_def new_function_def addEventListener_def)

lemma effect_importCodeMessage_listeners:
  assumes "window_ok w"
  shows "listeners (fst (effect_importCodeMessage w)) =
           listeners w @ [(''gitstory-import-code-message'', Listener (next_function w) HandleImportCodeMessage)]"
  using fresh_function_not_registered [OF assms]
  by (simp add: effect_importCodeMessage_def new_function_def addEventListener_def)

lemma effect_startNewThread_cleanup:
  "snd (effect_startNewThread w) u =
     u\<lparr>listeners := remove1 (''gitstory-start-new-thread'', Listener (next_function w) HandleStartNewThread)
                       (listeners u)\<rparr>"
  by (simp add: effect_startNewThread_def new_function_def removeEventListener_def)

lemma effect_importCodeMessage_cleanup:
  "snd (effect_importCodeMessage w) u =
     u\<lparr>listeners := remove1 (''gitstory-import-code-message'', Listener (next_function w) HandleImportCodeMessage)
                       (listeners u)\<rparr>"
  by (simp add: effect_importCodeMessage_def new_function_def removeEventListener_def)

lemma effect_startNewThread_next:
  "next_function (fst (effect_startNewThread w)) = Suc (next_function w)"
  by (simp add: effect_startNewThread_def new_function_def addEventListener_def)

lemma effect_importCodeMessage_next:
  "next_function (fst (effect_importCodeMessage w)) = Suc (next_function w)"
  by (simp add: effect_importCodeMessage_def new_function_def addEventListener_def)

lemma window_ok_append:
  assumes "window_ok w" and "listeners w' = listeners w @ [(ty, Listener (next_function w) code)]"
    and "next_function w' = Suc (next_function w)"
  shows "window_ok w'"
proof -
  have fresh: "(ty, Listener (next_function w) code) \<notin> set (listeners w)"
    using assms(1) by (rule fresh_function_not_registered)
  have "\<forall>p\<in>set (listeners w). function_id (snd p) < Suc (next_function w)"
    using assms(1) unfolding window_ok_def list_all_iff by (simp add: less_Suc_eq)
  with fresh assms show ?thesis
    unfolding window_ok_def list_all_iff by auto
qed

lemma effect_startNewThread_ok:
  "window_ok w \<Longrightarrow> window_ok (fst (effect_startNewThread w))"
  by (rule window_ok_append)
     (simp_all add: effect_startNewThread_listeners effect_startNewThread_next)

lemma effect_importCodeMessage_ok:
  "window_ok w \<Longrightarrow> window_ok (fst (effect_importCodeMessage w))"
  by (rule window_ok_append)
     (simp_all add: effect_importCodeMessage_listeners effect_importCodeMessage_next)

lemma mount_eq:
  "mount w =
     (fst (effect_importCodeMessage (fst (effect_startNewThread w))),
      [snd (effect_startNewThread w), snd (effect_importCodeMessage (fst (effect_startNewThread w)))])"
  by (simp add: mount_def split: prod.split)

lemma mount_listeners:
  assumes "window_ok w"
  shows "listeners (fst (mount w)) =
           listeners w @
           [(''gitstory-start-new-thread'', Listener (next_function w) HandleStartNewThread),
            (''gitstory-import-code-message'', Listener (Suc (next_function w)) HandleImportCodeMessage)]"
  using assms
  by (simp add: mount_eq effect_importCodeMessage_listeners effect_startNewThread_ok
                effect_startNewThread_listeners effect_startNewThread_next)

lemma dispatch_targets_append:
  "listeners w' = listeners w @ [(ty, l)] \<Longrightarrow>
   dispatch_targets ty' w' = dispatch_targets ty' w @ (if ty = ty' then [l] else [])"
  by (simp add: dispatch_targets_def)

text \<open>
  Claim C7. Each of the two effects, run on a window, registers one listener, and its
  cleanup removes exactly that listener under the same event name: run right after the
  effect it restores the listeners of the window, and run on any later window it removes
  that pair and nothing else. After mounting and unmounting the component the window has
  the listeners it had before, and neither listener of the component is among them.
\<close>

theorem listener_bookkeeping_balanced:
  assumes "window_ok w"
  shows "listeners (snd (effect_startNewThread w) (fst (effect_startNewThread w))) = listeners w \<and>
         listeners (snd (effect_importCodeMessage w) (fst (effect_importCodeMessage w))) = listeners w \<and>
         (\<forall>u. window_ok u \<longrightarrow>
            set (listeners (snd (effect_startNewThread w) u)) =
              set (listeners u) -
                {(''gitstory-start-new-thread'', Listener (next_function w) HandleStartNewThread)} \<and>
            set (listeners (snd (effect_importCodeMessage w) u)) =
              set (listeners u) -
                {(''gitstory-import-code-message'', Listener (next_function w) HandleImportCodeMessage)}) \<and>
         listeners (unmount (snd (mount w)) (fst (mount w))) = listeners w \<and>
         (''gitstory-start-new-thread'', Listener (next_function w) HandleStartNewThread)
           \<notin> set (listeners (unmount (snd (mount w)) (fst (mount w)))) \<and>
         (''gitstory-import-code-message'', Listener (Suc (next_function w)) HandleImportCodeMessage)
           \<notin> set (listeners (unmount (snd (mount w)) (fst (mount w))))"
proof -
  have a: "(''gitstory-start-new-thread'', Listener (next_function w) HandleStartNewThread)
             \<notin> set (listeners w)"
    and b: "(''gitstory-import-code-message'', Listener (next_function w) HandleImportCodeMessage)
             \<notin> set (listeners w)"
    and c: "(''gitstory-import-code-message'', Listener (Suc (next_function w)) HandleImportCodeMessage)
             \<notin> set (listeners w)"
    using assms fresh_function_not_registered [OF effect_startNewThread_ok [OF assms]]
    by (simp_all add: fresh_function_not_registered effect_startNewThread_listeners
                      effect_startNewThread_next)
  have 1: "listeners (snd (effect_startNewThread w) (fst (effect_startNewThread w))) = listeners w"
    using a by (simp add: effect_startNewThread_cleanup effect_startNewThread_listeners assms
                          remove1_append)
  have 2: "listeners (snd (effect_importCodeMessage w) (fst (effect_importCodeMessage w))) = listeners w"
    using b by (simp add: effect_importCodeMessage_cleanup effect_importCodeMessage_listeners assms
                          remove1_append)
  have 3: "\<forall>u. window_ok u \<longrightarrow>
            set (listeners (snd (effect_startNewThread w) u)) =
              set (listeners u) -
                {(''gitstory-start-new-thread'', Listener (next_function w) HandleStartNewThread)} \<and>
            set (listeners (snd (effect_importCodeMessage w) u)) =
              set (listeners u) -
                {(''gitstory-import-code-message'', Listener (next_function w) HandleImportCodeMessage)}"
    by (simp add: effect_startNewThread_cleanup effect_importCodeMessage_cleanup window_ok_def)
  have 4: "listeners (unmount (snd (mount w)) (fst (mount w))) = listeners w"
    using a c
    by (simp add: unmount_def mount_eq effect_startNewThread_cleanup
                  effect_importCodeMessage_cleanup effect_importCodeMessage_listeners
                  effect_startNewThread_ok effect_startNewThread_listeners
                  effect_startNewThread_next assms remove1_append)
  from 1 2 3 4 a c show ?thesis by simp
qed

theorem listener_bookkeeping_balanced_witness:
  "window_ok empty_window \<and>
   listeners (fst (mount empty_window)) =
     [(''gitstory-start-new-thread'', Listener 0 HandleStartNewThread),
      (''gitstory-import-code-message'', Listener 1 HandleImportCodeMessage)] \<and>
   listeners (unmount (snd (mount empty_window)) (fst (mount empty_window))) = []"
proof -
  have ok: "window_ok empty_window"
    by (simp add: window_ok_def empty_window_def)
  have "listeners (fst (mount empty_window)) =
     [(''gitstory-start-new-thread'', Listener 0 HandleStartNewThread),
      (''gitstory-import-code-message'', Listener 1 HandleImportCodeMessage)]"
    using mount_listeners [OF ok] by (simp add: empty_window_def)
  with ok listener_bookkeeping_balanced [OF ok] show ?thesis
    by (simp add: empty_window_def)
qed

text \<open>
  Claim C4. Once the effect has run, a dispatch of \<^verbatim>\<open>gitstory-start-new-thread\<close>
  invokes the listener the effect registered (after the listeners that were there
  before), and one invocation of it calls \<^verbatim>\<open>startNewThread\<close> exactly once and makes
  no other call.
\<close>

theorem startNewThread_called_once:
  assumes "window_ok w"
  shows "dispatch_targets ''gitstory-start-new-thread'' (fst (effect_startNewThread w)) =
           dispatch_targets ''gitstory-start-new-thread'' w @
             [Listener (next_function w) HandleStartNewThread] \<and>
         calls_of (invoke sdk event HandleStartNewThread) log = [StartNewThread] \<and>
         length (filter (\<lambda>c. c = StartNewThread)
                   (calls_of (invoke sdk event HandleStartNewThread) log)) = 1"
  using dispatch_targets_append [OF effect_startNewThread_listeners [OF assms]]
  by (simp add: handleStartNewThread_def calls_of_sdk_call)

theorem startNewThread_called_once_witness:
  "window_ok empty_window \<and>
   dispatch_targets ''gitstory-start-new-thread'' (fst (effect_startNewThread empty_window)) =
     [Listener 0 HandleStartNewThread] \<and>
   calls_of (invoke reliable_sdk \<lparr>detail = \<lparr>repoUrl = []\<rparr>\<rparr> HandleStartNewThread) []
     = [StartNewThread]"
proof -
  have ok: "window_ok empty_window"
    by (simp add: window_ok_def empty_window_def)
  show ?thesis
    using ok startNewThread_called_once [OF ok, of reliable_sdk "\<lparr>detail = \<lparr>repoUrl = []\<rparr>\<rparr>" "[]"]
    by (simp add: empty_window_def dispatch_targets_def)
qed

text \<open>
  Claim C3. Once the effect has run, a dispatch of \<^verbatim>\<open>gitstory-import-code-message\<close>
  invokes the listener the effect registered. For an event with detail \<open>{repoUrl}\<close>,
  and provided the SDK's \<^verbatim>\<open>setValue\<close> returns, one invocation waits 200 ms, sets the
  input value to the tag \<^verbatim>\<open><!-- HIDDEN:import-code-initialization -->\<close> followed by
  \<^verbatim>\<open>I want to explore this GitHub repository: \<close> and the URL, waits 50 ms, and calls
  \<^verbatim>\<open>submit\<close> with \<^verbatim>\<open>streamResponse\<close> true and no resource names.
\<close>

theorem import_event_sets_then_submits:
  assumes "window_ok w"
    and "sdk (log @ [Timeout 200])
           (SetValue (''<!-- HIDDEN:import-code-initialization -->'' @
                      ''I want to explore this GitHub repository: '' @ repoUrl (detail event))) = None"
  shows "dispatch_targets ''gitstory-import-code-message'' (fst (effect_importCodeMessage w)) =
           dispatch_targets ''gitstory-import-code-message'' w @
             [Listener (next_function w) HandleImportCodeMessage] \<and>
         calls_of (invoke sdk event HandleImportCodeMessage) log =
           [Timeout 200,
            SetValue (''<!-- HIDDEN:import-code-initialization -->'' @
                      ''I want to explore this GitHub repository: '' @ repoUrl (detail event)),
            Timeout 50,
            Submit \<lparr>streamResponse = Some True, resourceNames = []\<rparr>]"
  using dispatch_targets_append [OF effect_importCodeMessage_listeners [OF assms(1)]] assms(2)
  by (simp add: handleImportCodeMessage_calls)

theorem import_event_sets_then_submits_witness:
  "window_ok empty_window \<and>
   dispatch_targets ''gitstory-import-code-message'' (fst (effect_importCodeMessage empty_window)) =
     [Listener 0 HandleImportCodeMessage] \<and>
   calls_of (invoke reliable_sdk \<lparr>detail = \<lparr>repoUrl = ''https://github.com/octocat/hello''\<rparr>\<rparr>
               HandleImportCodeMessage) [] =
     [Timeout 200,
      SetValue (''<!-- HIDDEN:import-code-initialization -->I want to explore this GitHub repository: https://github.com/octocat/hello''),
      Timeout 50,
      Submit \<lparr>streamResponse = Some True, resourceNames = []\<rparr>]"
proof -
  have ok: "window_ok empty_window"
    by (simp add: window_ok_def empty_window_def)
  show ?thesis
    using ok import_event_sets_then_submits
                [where w = empty_window and sdk = reliable_sdk and log = "[]"
                   and event = "\<lparr>detail = \<lparr>repoUrl = ''https://github.com/octocat/hello''\<rparr>\<rparr>"]
    by (simp add: empty_window_def dispatch_targets_def reliable_sdk_def)
qed


section \<open>Properties of the rendered trees\<close>

text \<open>
  Claim C5. The root of what \<open>Home\<close> renders is a \<^verbatim>\<open>TamboProvider\<close> whose
  \<^verbatim>\<open>apiKey\<close> is the environment variable \<^verbatim>\<open>NEXT_PUBLIC_TAMBO_API_KEY\<close>, whose
  \<^verbatim>\<open>components\<close> and \<^verbatim>\<open>tools\<close> are the registered ones and whose
  \<^verbatim>\<open>mcpServers\<close> is what \<^verbatim>\<open>useMcpServers\<close> returned; the one
  \<^verbatim>\<open>MessageThreadFull\<close> of the page is inside it.
\<close>

theorem Home_wraps_thread_in_provider:
  "element_name (Home process_env components tools useMcpServers) = ''TamboProvider'' \<and>
   map_of (element_props (Home process_env components tools useMcpServers)) ''apiKey'' =
     Some (OptStr (process_env ''NEXT_PUBLIC_TAMBO_API_KEY'')) \<and>
   map_of (element_props (Home process_env components tools useMcpServers)) ''components'' =
     Some (Object components) \<and>
   map_of (element_props (Home process_env components tools useMcpServers)) ''tools'' =
     Some (Object tools) \<and>
   map_of (element_props (Home process_env components tools useMcpServers)) ''mcpServers'' =
     Some (Object useMcpServers) \<and>
   concat (map (find_elements ''MessageThreadFull'')
             (element_children (Home process_env components tools useMcpServers))) =
     [Element ''MessageThreadFull'' [(''className'', Str ''max-w-4xl mx-auto h-full'')] []]"
  by (simp add: Home_def)

text \<open>
  Claim C1. The claim is that every message submitted through the message input gets
  the repository context appended by \<open>submitWithRepoContext\<close>. The component creates
  that wrapper but hands it to nobody: the one \<^verbatim>\<open>MessageInput\<close> it renders receives
  no props, and the only functions it registers with the window are the two event
  listeners, which call the SDK's \<^verbatim>\<open>setValue\<close> and \<^verbatim>\<open>submit\<close> themselves.
\<close>

theorem MessageInput_rendered_without_props:
  "map element_props
     (find_elements ''MessageInput''
        (MessageThreadFull_render historyPosition mergedRef className variant props)) = [[]] \<and>
   map (\<lambda>p. case snd p of Listener i code \<Rightarrow> code)
     (listeners (fst (mount empty_window))) = [HandleStartNewThread, HandleImportCodeMessage]"
  by (simp add: MessageThreadFull_render_def threadHistorySidebar_def mount_eq
        effect_startNewThread_def effect_importCodeMessage_def new_function_def
        addEventListener_def empty_window_def)

end
